theory Spec2Isabelle
  imports Complex_Main "HOL-Library.Sublist"
begin

section \<open>The influencer list page (InfluencerList)\<close>

text \<open>
  The list page derives the rows it shows in \<open>fetchInfluencers\<close>: the array of the
  development data passes six optional filters one after the other and is then sorted
  in place by \<open>Array.prototype.sort\<close> with a numeric comparator.

  What is modelled, and on which inputs the model is the program:
  \<^item> A string is a list of ASCII characters. On ASCII text \<open>toLowerCase\<close> changes the
    capital letters A to Z only, and the white space \<open>parseInt\<close> skips is the six
    ASCII white-space characters. Text beyond ASCII (where JavaScript folds further
    capitals and skips further spaces) is outside the model; \<open>asciiText\<close> below says
    that a string is inside.
  \<^item> A number is a rational, standing for the value of the JavaScript double. The
    comparisons \<open>>\<close>, \<open>>=\<close>, \<open><=\<close> and the sign of a difference of two doubles are
    those of their values. \<open>parseInt\<close> is exact on integers up to \<open>2^53 - 1\<close>
    (\<open>maxSafeInteger\<close>); beyond that JavaScript rounds, and the model does not. Its
    \<open>NaN\<close> is \<open>None\<close>, and every comparison with it is false.
\<close>

record influencer =
  inf_id :: nat
  username :: string
  full_name :: string
  overall_investment_score :: rat
  follower_count :: rat
  engagement_rate :: rat
  category :: string
  growth_rate :: rat

text \<open>
  The \<open>filters\<close> state object. Each value is a string: \<open>''\<close> at the start and after
  a reset, otherwise the value of its input element.
\<close>

record filters =
  categoryFilter :: string
  minFollowers :: string
  maxFollowers :: string
  minScore :: string
  maxScore :: string

text \<open>
  \<open>sortField\<close> is only ever set by \<open>handleSort\<close>, called from the four sortable
  column headers; \<open>sortDirection\<close> is \<open>'asc'\<close> or \<open>'desc'\<close>.
\<close>

datatype sort_field =
  Overall_investment_score | Follower_count | Engagement_rate | Growth_rate

datatype sort_direction = Asc | Desc

text \<open>The state the effect depends on: \<open>[searchTerm, sortField, sortDirection, filters]\<close>.\<close>

record query =
  searchTerm :: string
  sortField :: sort_field
  sortDirection :: sort_direction
  filterState :: filters

subsection \<open>String operations\<close>


text \<open>
  \<open>String.prototype.toLowerCase\<close> on ASCII text: each capital letter is replaced by
  its small letter, every other character is kept.
\<close>

definition lowerChar :: "char \<Rightarrow> char" where
  "lowerChar c =
     (case map_of (zip ''ABCDEFGHIJKLMNOPQRSTUVWXYZ'' ''abcdefghijklmnopqrstuvwxyz'') c of
        None \<Rightarrow> c
      | Some l \<Rightarrow> l)"

definition toLowerCase :: "string \<Rightarrow> string" where
  "toLowerCase s = map lowerChar s"

fun startsWith :: "string \<Rightarrow> string \<Rightarrow> bool" where
  "startsWith s [] = True"
| "startsWith [] (p # ps) = False"
| "startsWith (c # cs) (p # ps) = (c = p \<and> startsWith cs ps)"

text \<open>\<open>String.prototype.includes\<close>: the argument occurs as a contiguous substring.\<close>

fun includesStr :: "string \<Rightarrow> string \<Rightarrow> bool" where
  "includesStr [] sub = (sub = [])"
| "includesStr (c # cs) sub = (startsWith (c # cs) sub \<or> includesStr cs sub)"

subsection \<open>parseInt\<close>

text \<open>
  \<open>parseInt(string)\<close> with no radix: leading white space is skipped, one sign is
  read, a \<open>0x\<close> or \<open>0X\<close> prefix selects radix 16, and the longest prefix of digits
  of the radix is the value; with no digit the result is \<open>NaN\<close>. Whatever follows
  the digits is ignored.
\<close>

definition isWhiteSpace :: "char \<Rightarrow> bool" where
  "isWhiteSpace c = ((of_char c :: nat) \<in> {9, 10, 11, 12, 13, 32})"

definition digitValue :: "char \<Rightarrow> nat option" where
  "digitValue c =
     (let n = (of_char c :: nat)
      in if 48 \<le> n \<and> n \<le> 57 then Some (n - 48)
         else if 97 \<le> n \<and> n \<le> 122 then Some (n - 87)
         else if 65 \<le> n \<and> n \<le> 90 then Some (n - 55)
         else None)"

definition radixDigit :: "nat \<Rightarrow> char \<Rightarrow> nat option" where
  "radixDigit R c =
     (case digitValue c of
        None \<Rightarrow> None
      | Some d \<Rightarrow> if d < R then Some d else None)"

fun digitsPrefix :: "nat \<Rightarrow> string \<Rightarrow> nat list" where
  "digitsPrefix R [] = []"
| "digitsPrefix R (c # cs) =
     (case radixDigit R c of
        None \<Rightarrow> []
      | Some d \<Rightarrow> d # digitsPrefix R cs)"

definition mathInt :: "nat \<Rightarrow> nat list \<Rightarrow> nat" where
  "mathInt R ds = foldl (\<lambda>acc d. acc * R + d) 0 ds"

definition parseInt :: "string \<Rightarrow> int option" where
  "parseInt str =
     (let S = dropWhile isWhiteSpace str;
          sign = (case S of c # _ \<Rightarrow> if c = CHR ''-'' then - 1 else 1 | [] \<Rightarrow> (1::int));
          S1 = (case S of c # cs \<Rightarrow> if c = CHR ''+'' \<or> c = CHR ''-'' then cs else S | [] \<Rightarrow> S);
          hex = (take 2 S1 = ''0x'' \<or> take 2 S1 = ''0X'');
          R = (if hex then 16 else 10);
          S2 = (if hex then drop 2 S1 else S1);
          Z = digitsPrefix R S2
      in if Z = [] then None else Some (sign * int (mathInt R Z)))"


text \<open>\<open>x >= parseInt(s)\<close> and \<open>x <= parseInt(s)\<close>: false when the right side is \<open>NaN\<close>.\<close>

definition geParsed :: "rat \<Rightarrow> string \<Rightarrow> bool" where
  "geParsed x s = (case parseInt s of None \<Rightarrow> False | Some n \<Rightarrow> of_int n \<le> x)"

definition leParsed :: "rat \<Rightarrow> string \<Rightarrow> bool" where
  "leParsed x s = (case parseInt s of None \<Rightarrow> False | Some n \<Rightarrow> x \<le> of_int n)"

subsection \<open>The filter chain\<close>

text \<open>
  \<open>if (v) { list = list.filter(p) }\<close>: the step runs when the string \<open>v\<close> is truthy,
  that is not empty.
\<close>

definition filterIf ::
  "string \<Rightarrow> (string \<Rightarrow> influencer \<Rightarrow> bool) \<Rightarrow> influencer list \<Rightarrow> influencer list" where
  "filterIf v p xs = (if v \<noteq> [] then filter (p v) xs else xs)"

definition searchPred :: "string \<Rightarrow> influencer \<Rightarrow> bool" where
  "searchPred s a =
     (let search = toLowerCase s
      in includesStr (toLowerCase (username a)) search
         \<or> includesStr (toLowerCase (full_name a)) search
         \<or> includesStr (toLowerCase (category a)) search)"

definition categoryPred :: "string \<Rightarrow> influencer \<Rightarrow> bool" where
  "categoryPred c a = (category a = c)"

definition minFollowersPred :: "string \<Rightarrow> influencer \<Rightarrow> bool" where
  "minFollowersPred s a = geParsed (follower_count a) s"

definition maxFollowersPred :: "string \<Rightarrow> influencer \<Rightarrow> bool" where
  "maxFollowersPred s a = leParsed (follower_count a) s"

definition minScorePred :: "string \<Rightarrow> influencer \<Rightarrow> bool" where
  "minScorePred s a = geParsed (overall_investment_score a) s"

definition maxScorePred :: "string \<Rightarrow> influencer \<Rightarrow> bool" where
  "maxScorePred s a = leParsed (overall_investment_score a) s"

definition applyFilters :: "query \<Rightarrow> influencer list \<Rightarrow> influencer list" where
  "applyFilters q xs =
     (let fs = filterState q;
          l1 = filterIf (searchTerm q) searchPred xs;
          l2 = filterIf (categoryFilter fs) categoryPred l1;
          l3 = filterIf (minFollowers fs) minFollowersPred l2;
          l4 = filterIf (maxFollowers fs) maxFollowersPred l3;
          l5 = filterIf (minScore fs) minScorePred l4
      in filterIf (maxScore fs) maxScorePred l5)"

subsection \<open>Sorting\<close>

text \<open>
  \<open>a[sortField]\<close> for the four sortable columns, and the comparator passed to
  \<open>sort\<close>: \<open>a[sortField] - b[sortField]\<close> ascending, the opposite descending.
\<close>

fun fieldValue :: "sort_field \<Rightarrow> influencer \<Rightarrow> rat" where
  "fieldValue Overall_investment_score a = overall_investment_score a"
| "fieldValue Follower_count a = follower_count a"
| "fieldValue Engagement_rate a = engagement_rate a"
| "fieldValue Growth_rate a = growth_rate a"

definition comparator :: "sort_field \<Rightarrow> sort_direction \<Rightarrow> influencer \<Rightarrow> influencer \<Rightarrow> rat" where
  "comparator f d a b =
     (if d = Asc then fieldValue f a - fieldValue f b
      else fieldValue f b - fieldValue f a)"

text \<open>
  \<open>Array.prototype.sort\<close> is stable: elements the comparator does not separate keep
  their relative order. With a consistent comparator the result of a stable sort is
  unique, so it is the result of this stable insertion sort.
\<close>

fun insertBy :: "('a \<Rightarrow> 'a \<Rightarrow> rat) \<Rightarrow> 'a \<Rightarrow> 'a list \<Rightarrow> 'a list" where
  "insertBy cmp x [] = [x]"
| "insertBy cmp x (y # ys) =
     (if cmp x y \<le> 0 then x # y # ys else y # insertBy cmp x ys)"

definition arraySort :: "('a \<Rightarrow> 'a \<Rightarrow> rat) \<Rightarrow> 'a list \<Rightarrow> 'a list" where
  "arraySort cmp xs = foldr (insertBy cmp) xs []"

text \<open>
  The body of \<open>fetchInfluencers\<close> from the local \<open>filteredInfluencers\<close> on: the six
  filter steps, then the sort.
\<close>

definition filterAndSort :: "query \<Rightarrow> influencer list \<Rightarrow> influencer list" where
  "filterAndSort q xs =
     arraySort (comparator (sortField q) (sortDirection q)) (applyFilters q xs)"

subsection \<open>The development data\<close>

definition mkInfluencer ::
  "nat \<Rightarrow> string \<Rightarrow> string \<Rightarrow> rat \<Rightarrow> rat \<Rightarrow> rat \<Rightarrow> string \<Rightarrow> rat \<Rightarrow> influencer" where
  "mkInfluencer i u n s f e c g =
     \<lparr>inf_id = i, username = u, full_name = n, overall_investment_score = s,
      follower_count = f, engagement_rate = e, category = c, growth_rate = g\<rparr>"

definition mockInfluencers :: "influencer list" where
  "mockInfluencers =
     [mkInfluencer 1 ''tech_influencer'' ''Tech Expert'' 92 1500000 4.8 ''Technology'' 3.2,
      mkInfluencer 2 ''fitness_guru'' ''Fitness Coach'' 88 2200000 3.9 ''Fitness'' 2.7,
      mkInfluencer 3 ''travel_explorer'' ''Travel Blogger'' 85 980000 5.2 ''Travel'' 4.1,
      mkInfluencer 4 ''food_lover'' ''Food Critic'' 82 1200000 4.1 ''Food'' 2.9,
      mkInfluencer 5 ''fashion_icon'' ''Fashion Designer'' 80 3100000 3.2 ''Fashion'' 1.8,
      mkInfluencer 6 ''rising_star'' ''Entertainment Star'' 78 350000 6.8 ''Entertainment'' 12.5,
      mkInfluencer 7 ''new_creator'' ''Digital Artist'' 76 180000 7.2 ''Art'' 10.2,
      mkInfluencer 8 ''upcoming_talent'' ''Music Producer'' 75 420000 5.9 ''Music'' 9.7,
      mkInfluencer 9 ''growing_fast'' ''Gaming Streamer'' 74 290000 6.1 ''Gaming'' 8.9,
      mkInfluencer 10 ''trending_now'' ''Lifestyle Blogger'' 72 520000 5.5 ''Lifestyle'' 8.3,
      mkInfluencer 11 ''beauty_expert'' ''Makeup Artist'' 70 890000 4.7 ''Beauty'' 3.5,
      mkInfluencer 12 ''health_coach'' ''Wellness Coach'' 68 670000 4.9 ''Health'' 4.2]"

text \<open>
  \<open>fetchInfluencers\<close> has no data input: it builds the array above on every call,
  filters and sorts it and stores the result as the rows to show. The in-place sort
  therefore leaves nothing behind for the next call, and the rows are a function of the
  state alone.
\<close>

definition fetchInfluencers :: "query \<Rightarrow> influencer list" where
  "fetchInfluencers q = filterAndSort q mockInfluencers"

definition noFilters :: filters where
  "noFilters =
     \<lparr>categoryFilter = [], minFollowers = [], maxFollowers = [],
      minScore = [], maxScore = []\<rparr>"

text \<open>The page's initial state: no search, no filter, by score, highest first.\<close>

definition initialQuery :: query where
  "initialQuery =
     \<lparr>searchTerm = [], sortField = Overall_investment_score,
      sortDirection = Desc, filterState = noFilters\<rparr>"

subsection \<open>The growth badge\<close>

text \<open>
  The growth-rate cell of a row: a green badge when \<open>growth_rate > 5\<close>, a blue one
  when \<open>growth_rate > 0\<close>, a red one otherwise. The green badge is the tier
  \<open>high\<close>, the blue one \<open>positive\<close>, the red one \<open>declining\<close>. The detail page
  (InfluencerDetail) shows an up arrow when \<open>growth_rate > 0\<close> and a down arrow
  otherwise.
\<close>

datatype momentum_tier = High | Positive | Declining

definition growthBadge :: "rat \<Rightarrow> momentum_tier" where
  "growthBadge g = (if g > 5 then High else if g > 0 then Positive else Declining)"

datatype arrow = ArrowUp | ArrowDown

definition growthArrow :: "rat \<Rightarrow> arrow" where
  "growthArrow g = (if g > 0 then ArrowUp else ArrowDown)"

subsection \<open>The ranking, stated without the sort\<close>

text \<open>
  Row \<open>a\<close> may stand before row \<open>b\<close> in a list ranked by field \<open>f\<close> in direction
  \<open>d\<close>: \<open>a\<close> comes first by the field, or the two have the same value and the id of
  \<open>a\<close> is not the larger one.
\<close>

definition rankedBefore :: "sort_field \<Rightarrow> sort_direction \<Rightarrow> influencer \<Rightarrow> influencer \<Rightarrow> bool" where
  "rankedBefore f d a b =
     (if d = Asc
      then fieldValue f a < fieldValue f b
           \<or> (fieldValue f a = fieldValue f b \<and> inf_id a \<le> inf_id b)
      else fieldValue f b < fieldValue f a
           \<or> (fieldValue f a = fieldValue f b \<and> inf_id a \<le> inf_id b))"

text \<open>The key the comparator orders by: the field, negated when descending.\<close>

fun sortKey :: "sort_field \<Rightarrow> sort_direction \<Rightarrow> influencer \<Rightarrow> rat" where
  "sortKey f Asc a = fieldValue f a"
| "sortKey f Desc a = - fieldValue f a"

text \<open>Three rows in ascending id order, the first and the third with the same score.\<close>

definition orderedTies :: "influencer list" where
  "orderedTies =
     [mkInfluencer 1 ''alpha'' ''Alpha'' 80 1000 1 ''Food'' 1,
      mkInfluencer 2 ''beta'' ''Beta'' 90 2000 2 ''Food'' 2,
      mkInfluencer 3 ''gamma'' ''Gamma'' 80 3000 3 ''Food'' 3]"

subsection \<open>The list query, stated without the filter chain\<close>















subsection \<open>The list query with one filter step taken out\<close>

datatype filter_name =
  SearchTerm | Category | MinFollowers | MaxFollowers | MinScore | MaxScore

text \<open>The state with the named filter value set to the empty string.\<close>

definition clearFilter :: "filter_name \<Rightarrow> query \<Rightarrow> query" where
  "clearFilter k q =
     (case k of
        SearchTerm \<Rightarrow> q\<lparr>searchTerm := []\<rparr>
      | Category \<Rightarrow> q\<lparr>filterState := (filterState q)\<lparr>categoryFilter := []\<rparr>\<rparr>
      | MinFollowers \<Rightarrow> q\<lparr>filterState := (filterState q)\<lparr>minFollowers := []\<rparr>\<rparr>
      | MaxFollowers \<Rightarrow> q\<lparr>filterState := (filterState q)\<lparr>maxFollowers := []\<rparr>\<rparr>
      | MinScore \<Rightarrow> q\<lparr>filterState := (filterState q)\<lparr>minScore := []\<rparr>\<rparr>
      | MaxScore \<Rightarrow> q\<lparr>filterState := (filterState q)\<lparr>maxScore := []\<rparr>\<rparr>)"

text \<open>
  The list query with the named filter absent: the other five steps in their order,
  each still under its own \<open>if\<close>, then the sort.
\<close>

definition stepUnless ::
  "bool \<Rightarrow> string \<Rightarrow> (string \<Rightarrow> influencer \<Rightarrow> bool) \<Rightarrow> influencer list \<Rightarrow> influencer list" where
  "stepUnless absent v p xs = (if absent then xs else filterIf v p xs)"

definition withoutStep :: "filter_name \<Rightarrow> query \<Rightarrow> influencer list \<Rightarrow> influencer list" where
  "withoutStep k q xs =
     (let fs = filterState q;
          l1 = stepUnless (k = SearchTerm) (searchTerm q) searchPred xs;
          l2 = stepUnless (k = Category) (categoryFilter fs) categoryPred l1;
          l3 = stepUnless (k = MinFollowers) (minFollowers fs) minFollowersPred l2;
          l4 = stepUnless (k = MaxFollowers) (maxFollowers fs) maxFollowersPred l3;
          l5 = stepUnless (k = MinScore) (minScore fs) minScorePred l4;
          l6 = stepUnless (k = MaxScore) (maxScore fs) maxScorePred l5
      in arraySort (comparator (sortField q) (sortDirection q)) l6)"

section \<open>The scoring and trend engine\<close>

text \<open>
  The repository holds the pages only: the Cohort Normalizer and the Trend Calculator
  that produce the numbers the pages show are not among its sources. The two are
  modelled here from their description.
\<close>

subsection \<open>Cohort Normalizer\<close>

text \<open>
  Modelled from the spec: the Cohort Normalizer's rank of a value within a cohort. The
  cohort's values of one metric are put in ascending order and numbered from 1;
  \<open>tiedRanks\<close> are the numbers the value \<open>v\<close> occupies.
\<close>

definition tiedRanks :: "rat list \<Rightarrow> rat \<Rightarrow> nat list" where
  "tiedRanks cohort v = map fst (filter (\<lambda>(r, x). x = v) (enumerate 1 (sort cohort)))"

text \<open>
  Modelled from the spec: rank ties are broken by averaging the ranks of the tied
  values.
\<close>

definition averageRank :: "rat list \<Rightarrow> rat \<Rightarrow> rat" where
  "averageRank cohort v =
     of_nat (sum_list (tiedRanks cohort v)) / of_nat (length (tiedRanks cohort v))"

text \<open>
  Modelled from the spec: \<open>percentile = 100 * (rank - 1) / (cohort_size - 1)\<close>. The
  quotient has no value for a cohort of one subject, nor has a value outside the cohort
  a rank: both are \<open>None\<close>.
\<close>

definition percentileRank :: "rat list \<Rightarrow> rat \<Rightarrow> rat option" where
  "percentileRank cohort v =
     (if length cohort < 2 \<or> v \<notin> set cohort then None
      else Some (100 * (averageRank cohort v - 1) / (of_nat (length cohort) - 1)))"

text \<open>Modelled from the spec: the percentile vector of a cohort, one entry per subject.\<close>

definition cohortPercentiles :: "rat list \<Rightarrow> rat option list" where
  "cohortPercentiles cohort = map (percentileRank cohort) cohort"

text \<open>How many values of the cohort lie below \<open>v\<close>, and how many equal it.\<close>

definition countBelow :: "rat list \<Rightarrow> rat \<Rightarrow> nat" where
  "countBelow cohort v = length (filter (\<lambda>x. x < v) cohort)"

definition countTied :: "rat list \<Rightarrow> rat \<Rightarrow> nat" where
  "countTied cohort v = length (filter (\<lambda>x. x = v) cohort)"

text \<open>The follower counts of the five-subject cohort of category Tech.\<close>

definition techCohort :: "rat list" where
  "techCohort = [100000, 500000, 1000000, 2000000, 3000000]"

subsection \<open>Trend Calculator\<close>

text \<open>
  Modelled from the spec: the configuration surface of the Trend Calculator (the length
  of the trailing window, counted in snapshots, and the winsorization multiple) and the
  TrendRecord it produces. An unknown growth rate is \<open>None\<close>.
\<close>

record trend_config =
  window_length :: nat
  winsor_multiple :: rat

datatype confidence = Low | Normal

record trend_record =
  tr_growth_rate :: "rat option"
  tr_momentum :: "momentum_tier option"
  tr_confidence :: confidence
  tr_outlier_dampened :: bool

text \<open>
  Modelled from the spec: winsorization of one single-cycle delta. A delta exceeding the
  multiple of the trailing median delta is capped at that multiple and marked.
\<close>

definition capDelta :: "rat \<Rightarrow> rat \<Rightarrow> rat \<Rightarrow> rat \<times> bool" where
  "capDelta multiple median delta =
     (if delta > multiple * median then (multiple * median, True) else (delta, False))"

text \<open>
  Modelled from the spec: the trailing window, the last \<open>window_length\<close> entries of
  the chronologically ordered history of the headline metric (follower_count).
\<close>

definition trailingWindow :: "trend_config \<Rightarrow> rat list \<Rightarrow> rat list" where
  "trailingWindow cfg history = drop (length history - window_length cfg) history"

text \<open>Modelled from the spec: the single-cycle deltas of a window.\<close>

fun cycleDeltas :: "rat list \<Rightarrow> rat list" where
  "cycleDeltas (x # y # rest) = (y - x) # cycleDeltas (y # rest)"
| "cycleDeltas _ = []"

text \<open>
  Modelled from the spec: the Trend Calculator. With fewer than two snapshots in the
  window the confidence is low and the growth rate unknown. Otherwise every delta is
  winsorized first, and the growth rate is the percentage change from the earliest
  snapshot to the latest one as the capped deltas give it; the momentum tier has the
  thresholds of the growth badge. The trailing median delta is an input, since it is
  not said over which deltas it is taken; the change is per window, not annualized; a
  percentage of an earliest count of zero is unknown.
\<close>

definition trendCalculator :: "trend_config \<Rightarrow> rat \<Rightarrow> rat list \<Rightarrow> trend_record" where
  "trendCalculator cfg median history =
     (case trailingWindow cfg history of
        earliest # second # rest \<Rightarrow>
          (let capped = map (capDelta (winsor_multiple cfg) median)
                          (cycleDeltas (earliest # second # rest));
               change = sum_list (map fst capped);
               growth = (if earliest = 0 then None else Some (100 * change / earliest))
           in \<lparr>tr_growth_rate = growth,
               tr_momentum = map_option growthBadge growth,
               tr_confidence = Normal,
               tr_outlier_dampened = list_ex snd capped\<rparr>)
      | _ \<Rightarrow>
          \<lparr>tr_growth_rate = None, tr_momentum = None, tr_confidence = Low,
           tr_outlier_dampened = False\<rparr>)"

text \<open>The example configuration: a window of six snapshots, the multiple 3.\<close>

definition exampleTrendConfig :: trend_config where
  "exampleTrendConfig = \<lparr>window_length = 6, winsor_multiple = 3\<rparr>"


section \<open>Properties of the list page\<close>

subsection \<open>The filter chain and the sort, in library terms\<close>

lemma filterIf_filter: "filterIf v p xs = filter (\<lambda>a. v = [] \<or> p v a) xs"
  by (simp add: filterIf_def)

lemma applyFilters_filter:
  "applyFilters q xs =
     filter (\<lambda>a. (searchTerm q = [] \<or> searchPred (searchTerm q) a)
                \<and> (categoryFilter (filterState q) = []
                    \<or> categoryPred (categoryFilter (filterState q)) a)
                \<and> (minFollowers (filterState q) = []
                    \<or> minFollowersPred (minFollowers (filterState q)) a)
                \<and> (maxFollowers (filterState q) = []
                    \<or> maxFollowersPred (maxFollowers (filterState q)) a)
                \<and> (minScore (filterState q) = []
                    \<or> minScorePred (minScore (filterState q)) a)
                \<and> (maxScore (filterState q) = []
                    \<or> maxScorePred (maxScore (filterState q)) a)) xs"
  unfolding applyFilters_def Let_def filterIf_filter filter_filter
  by (rule filter_cong) auto

lemma applyFilters_is_filter: "\<exists>P. applyFilters q xs = filter P xs"
  using applyFilters_filter by blast

lemma insertBy_insort:
  "insertBy (comparator f d) x ys = insort_key (sortKey f d) x ys"
  by (induction ys) (cases d; simp add: comparator_def)+

lemma arraySort_sort_key:
  "arraySort (comparator f d) xs = sort_key (sortKey f d) xs"
  by (induction xs) (simp_all add: arraySort_def sort_key_def insertBy_insort)


subsection \<open>Ties under a stable sort\<close>

lemma rankedBefore_sortKey:
  "rankedBefore f d a b \<longleftrightarrow>
     sortKey f d a < sortKey f d b \<or> (sortKey f d a = sortKey f d b \<and> inf_id a \<le> inf_id b)"
  by (cases d) (simp_all add: rankedBefore_def)

lemma insort_keeps_rank:
  assumes "sorted_wrt (rankedBefore f d) ys"
      and "\<forall>y \<in> set ys. inf_id x \<le> inf_id y"
  shows "sorted_wrt (rankedBefore f d) (insort_key (sortKey f d) x ys)"
  using assms
  by (induction ys) (auto simp: set_insort_key rankedBefore_sortKey)

lemma sort_key_ranked:
  assumes "sorted (map inf_id xs)"
  shows "sorted_wrt (rankedBefore f d) (sort_key (sortKey f d) xs)"
  using assms
proof (induction xs)
  case Nil
  then show ?case by simp
next
  case (Cons x xs)
  then have later: "\<forall>y \<in> set (sort_key (sortKey f d) xs). inf_id x \<le> inf_id y"
    by simp
  from Cons have "sorted_wrt (rankedBefore f d) (sort_key (sortKey f d) xs)"
    by simp
  with later show ?case
    by (simp add: insort_keeps_rank)
qed

lemma arraySort_ranked:
  "sorted (map inf_id xs) \<Longrightarrow> sorted_wrt (rankedBefore f d) (arraySort (comparator f d) xs)"
  by (simp add: arraySort_sort_key sort_key_ranked)

lemma filterAndSort_ranked:
  assumes "sorted (map inf_id xs)"
  shows "sorted_wrt (rankedBefore (sortField q) (sortDirection q)) (filterAndSort q xs)"
proof -
  obtain P where "applyFilters q xs = filter P xs"
    using applyFilters_is_filter by blast
  moreover have "sorted (map inf_id (filter P xs))"
    using assms by (rule sorted_filter)
  ultimately show ?thesis
    by (simp add: filterAndSort_def arraySort_ranked)
qed

lemma filterAndSort_again: "filterAndSort q (filterAndSort q xs) = filterAndSort q xs"
proof -
  obtain P where P: "\<And>ys. applyFilters q ys = filter P ys"
    using applyFilters_filter by blast
  show ?thesis
    by (simp add: filterAndSort_def P arraySort_sort_key filter_sort sort_key_id_if_sorted)
qed

lemma mock_in_id_order: "sorted (map inf_id mockInfluencers)"
  by (simp add: mockInfluencers_def mkInfluencer_def)

lemma mock_no_ties: "distinct (map (fieldValue f) mockInfluencers)"
  by (cases f) (simp_all add: mockInfluencers_def mkInfluencer_def)

lemma ties_in_id_order:
  assumes "sorted (map inf_id xs)"
      and "i < j" and "j < length (filterAndSort q xs)"
      and "fieldValue (sortField q) (filterAndSort q xs ! i)
           = fieldValue (sortField q) (filterAndSort q xs ! j)"
  shows "inf_id (filterAndSort q xs ! i) \<le> inf_id (filterAndSort q xs ! j)"
proof -
  have "sorted_wrt (rankedBefore (sortField q) (sortDirection q)) (filterAndSort q xs)"
    using assms(1) by (rule filterAndSort_ranked)
  then have "rankedBefore (sortField q) (sortDirection q)
               (filterAndSort q xs ! i) (filterAndSort q xs ! j)"
    using assms(2,3) by (rule sorted_wrt_nth_less)
  with assms(4) show ?thesis
    by (simp add: rankedBefore_def split: if_splits)
qed

lemma filterAndSort_orderedTies:
  "filterAndSort initialQuery orderedTies
     = [mkInfluencer 2 ''beta'' ''Beta'' 90 2000 2 ''Food'' 2,
        mkInfluencer 1 ''alpha'' ''Alpha'' 80 1000 1 ''Food'' 1,
        mkInfluencer 3 ''gamma'' ''Gamma'' 80 3000 3 ''Food'' 3]"
  by (simp add: filterAndSort_def initialQuery_def orderedTies_def mkInfluencer_def
      applyFilters_def noFilters_def filterIf_def arraySort_def comparator_def)

lemma fetch_initial: "fetchInfluencers initialQuery = mockInfluencers"
  by (simp add: fetchInfluencers_def filterAndSort_def initialQuery_def mockInfluencers_def
      mkInfluencer_def applyFilters_def noFilters_def filterIf_def arraySort_def
      comparator_def)

text \<open>
  C4: for every growth rate the tier shown is \<open>high\<close> exactly when the rate is above 5,
  \<open>positive\<close> exactly when it is above 0 and at most 5, and \<open>declining\<close> exactly
  when it is at most 0; the arrow of the detail page points down exactly for the
  declining rates.
\<close>

theorem momentum_tier_by_growth_rate:
  "(growthBadge g = High \<longleftrightarrow> 5 < g)
   \<and> (growthBadge g = Positive \<longleftrightarrow> 0 < g \<and> g \<le> 5)
   \<and> (growthBadge g = Declining \<longleftrightarrow> g \<le> 0)
   \<and> (growthArrow g = ArrowDown \<longleftrightarrow> growthBadge g = Declining)"
  by (auto simp: growthBadge_def growthArrow_def)


text \<open>
  C5: whatever rows the filters let through, the rows shown are ranked by the sort field
  in the chosen direction, and rows with equal values of the sort field stand in
  ascending id order. The sort compares the field only and is stable; the order among
  equal values is the order of the data, which is held in ascending id order, and so is
  that of any list held in that order. Running the query again, also on the rows it has
  produced, gives the same rows in the same order.
\<close>

theorem ranked_with_ties_in_id_order:
  "sorted_wrt (rankedBefore (sortField q) (sortDirection q)) (fetchInfluencers q)
   \<and> sorted_wrt (rankedBefore f d) (arraySort (comparator f d) (filter P mockInfluencers))
   \<and> (sorted (map inf_id xs) \<longrightarrow>
        sorted_wrt (rankedBefore (sortField q) (sortDirection q)) (filterAndSort q xs))
   \<and> (sorted (map inf_id xs) \<and> i < j \<and> j < length (filterAndSort q xs)
        \<and> fieldValue (sortField q) (filterAndSort q xs ! i)
            = fieldValue (sortField q) (filterAndSort q xs ! j)
        \<longrightarrow> inf_id (filterAndSort q xs ! i) \<le> inf_id (filterAndSort q xs ! j))
   \<and> filterAndSort q (fetchInfluencers q) = fetchInfluencers q
   \<and> filterAndSort q (filterAndSort q xs) = filterAndSort q xs"
proof -
  have "sorted (map inf_id (filter P mockInfluencers))"
    using mock_in_id_order by (rule sorted_filter)
  then have "sorted_wrt (rankedBefore f d) (arraySort (comparator f d) (filter P mockInfluencers))"
    by (rule arraySort_ranked)
  moreover have "sorted_wrt (rankedBefore (sortField q) (sortDirection q)) (fetchInfluencers q)"
    unfolding fetchInfluencers_def using mock_in_id_order by (rule filterAndSort_ranked)
  moreover have "filterAndSort q (fetchInfluencers q) = fetchInfluencers q"
    unfolding fetchInfluencers_def by (rule filterAndSort_again)
  moreover have
    "sorted (map inf_id xs) \<and> i < j \<and> j < length (filterAndSort q xs)
     \<and> fieldValue (sortField q) (filterAndSort q xs ! i)
         = fieldValue (sortField q) (filterAndSort q xs ! j)
     \<longrightarrow> inf_id (filterAndSort q xs ! i) \<le> inf_id (filterAndSort q xs ! j)"
    using ties_in_id_order [of xs i j q] by blast
  ultimately show ?thesis
    by (simp add: filterAndSort_ranked filterAndSort_again)
qed

theorem ranked_with_ties_in_id_order_witness:
  "sorted (map inf_id orderedTies)
   \<and> (1::nat) < 2 \<and> 2 < length (filterAndSort initialQuery orderedTies)
   \<and> fieldValue (sortField initialQuery) (filterAndSort initialQuery orderedTies ! 1)
       = fieldValue (sortField initialQuery) (filterAndSort initialQuery orderedTies ! 2)
   \<and> inf_id (filterAndSort initialQuery orderedTies ! 1)
       \<le> inf_id (filterAndSort initialQuery orderedTies ! 2)
   \<and> sorted_wrt (rankedBefore Overall_investment_score Desc)
        [mkInfluencer 2 ''beta'' ''Beta'' 90 2000 2 ''Food'' 2,
         mkInfluencer 1 ''alpha'' ''Alpha'' 80 1000 1 ''Food'' 1,
         mkInfluencer 3 ''gamma'' ''Gamma'' 80 3000 3 ''Food'' 3]
   \<and> sorted (map inf_id mockInfluencers)
   \<and> sorted_wrt (rankedBefore Overall_investment_score Desc) mockInfluencers"
proof -
  have srt: "sorted (map inf_id orderedTies)"
    by (simp add: orderedTies_def mkInfluencer_def)
  have sf: "sortField initialQuery = Overall_investment_score"
    and sd: "sortDirection initialQuery = Desc"
    by (simp_all add: initialQuery_def)
  have len: "2 < length (filterAndSort initialQuery orderedTies)"
    by (simp add: filterAndSort_orderedTies)
  have key: "fieldValue (sortField initialQuery) (filterAndSort initialQuery orderedTies ! 1)
             = fieldValue (sortField initialQuery) (filterAndSort initialQuery orderedTies ! 2)"
    unfolding filterAndSort_orderedTies sf by (simp add: mkInfluencer_def)
  have one_two: "(1::nat) < 2" by simp
  note inst = ranked_with_ties_in_id_order
    [of initialQuery Overall_investment_score Desc "\<lambda>a. True" orderedTies 1 2]
  from inst srt one_two len key
  have ids: "inf_id (filterAndSort initialQuery orderedTies ! 1)
             \<le> inf_id (filterAndSort initialQuery orderedTies ! 2)"
    by blast
  from inst srt
  have "sorted_wrt (rankedBefore Overall_investment_score Desc) (fetchInfluencers initialQuery)"
    and "sorted_wrt (rankedBefore Overall_investment_score Desc)
           (filterAndSort initialQuery orderedTies)"
    by (simp_all add: sf sd)
  then have ranked:
    "sorted_wrt (rankedBefore Overall_investment_score Desc)
        [mkInfluencer 2 ''beta'' ''Beta'' 90 2000 2 ''Food'' 2,
         mkInfluencer 1 ''alpha'' ''Alpha'' 80 1000 1 ''Food'' 1,
         mkInfluencer 3 ''gamma'' ''Gamma'' 80 3000 3 ''Food'' 3]"
    and "sorted_wrt (rankedBefore Overall_investment_score Desc) mockInfluencers"
    by (simp_all only: fetch_initial filterAndSort_orderedTies)
  with srt one_two len key ids mock_in_id_order show ?thesis
    by blast
qed


subsection \<open>Substrings\<close>




subsection \<open>Whole-number bounds\<close>























text \<open>
  C10: a filter step whose value is the empty string lets every row through, whatever
  its predicate; so for every list of rows and whatever the other values are, the query
  with the search term or one of the five filters set to the empty string gives exactly
  the rows, in the order, of the query with that step taken out. With all six empty the
  page shows all the rows of its data.
\<close>

theorem empty_string_filter_is_identity:
  "filterIf [] p xs = xs
   \<and> filterAndSort (clearFilter k q) xs = withoutStep k q xs
   \<and> fetchInfluencers (clearFilter k q) = withoutStep k q mockInfluencers
   \<and> fetchInfluencers initialQuery = mockInfluencers"
proof -
  have step: "filterIf [] p ys = ys" for p ys
    by (simp add: filterIf_def)
  have chain: "filterAndSort (clearFilter k q) ys = withoutStep k q ys" for ys
    by (cases k)
      (simp_all add: filterAndSort_def clearFilter_def withoutStep_def stepUnless_def
        applyFilters_def Let_def step)
  show ?thesis
    by (simp add: step chain fetchInfluencers_def fetch_initial [unfolded fetchInfluencers_def])
qed

section \<open>Properties of the scoring and trend engine\<close>

subsection \<open>Ranks in a cohort\<close>

lemma sorted_three_way:
  "sorted xs \<Longrightarrow>
     xs = filter (\<lambda>x. x < v) xs @ filter (\<lambda>x. x = v) xs
          @ filter (\<lambda>x. v < x) (xs :: rat list)"
proof (induction xs)
  case Nil
  then show ?case by simp
next
  case (Cons x xs)
  then have le: "\<forall>y \<in> set xs. x \<le> y"
    and ih: "xs = filter (\<lambda>x. x < v) xs @ filter (\<lambda>x. x = v) xs @ filter (\<lambda>x. v < x) xs"
    by simp_all
  consider "x < v" | "x = v" | "v < x" by linarith
  then show ?case
  proof cases
    case 1
    then show ?thesis using ih by simp
  next
    case 2
    then have "filter (\<lambda>y. y < v) xs = []"
      using le by (auto simp: filter_empty_conv)
    then show ?thesis using 2 ih by simp
  next
    case 3
    then have "filter (\<lambda>y. y < v) xs = []" "filter (\<lambda>y. y = v) xs = []"
      using le by (auto simp: filter_empty_conv)
    then show ?thesis using 3 ih by simp
  qed
qed

lemma filter_enumerate_none:
  "\<forall>x \<in> set xs. x \<noteq> v \<Longrightarrow> filter (\<lambda>(r, x). x = v) (enumerate k xs) = []"
  by (induction xs arbitrary: k) simp_all

lemma filter_enumerate_all:
  "\<forall>x \<in> set xs. x = v \<Longrightarrow> filter (\<lambda>(r, x). x = v) (enumerate k xs) = enumerate k xs"
  by (induction xs arbitrary: k) simp_all

lemma tiedRanks_interval:
  "tiedRanks cohort v
     = [Suc (countBelow cohort v) ..< Suc (countBelow cohort v) + countTied cohort v]"
proof -
  let ?s = "sort cohort"
  let ?A = "filter (\<lambda>x. x < v) ?s"
  let ?B = "filter (\<lambda>x. x = v) ?s"
  let ?C = "filter (\<lambda>x. v < x) ?s"
  have split: "?s = ?A @ ?B @ ?C"
    by (rule sorted_three_way) simp
  have lenA: "length ?A = countBelow cohort v"
    by (simp add: countBelow_def filter_sort)
  have lenB: "length ?B = countTied cohort v"
    by (simp add: countTied_def filter_sort)
  have "tiedRanks cohort v = map fst (filter (\<lambda>(r, x). x = v) (enumerate 1 (?A @ ?B @ ?C)))"
    unfolding tiedRanks_def using split by simp
  also have "\<dots> = map fst (enumerate (1 + length ?A) ?B)"
    by (simp add: enumerate_append_eq filter_enumerate_none filter_enumerate_all
        del: filter_sort)
  also have "\<dots> = [Suc (countBelow cohort v) ..< Suc (countBelow cohort v) + countTied cohort v]"
    by (simp add: map_fst_enumerate lenA lenB del: filter_sort)
  finally show ?thesis .
qed

lemma sum_interval: "2 * sum_list [k ..< k + m] + m = m * (2 * k + m)"
  by (induction m) (simp_all add: algebra_simps)

lemma sum_interval_rat:
  "(of_nat (sum_list [k ..< k + m]) :: rat) = of_nat m * (2 * of_nat k + of_nat m - 1) / 2"
proof -
  have "(of_nat (2 * sum_list [k ..< k + m] + m) :: rat) = of_nat (m * (2 * k + m))"
    by (simp only: sum_interval)
  then show ?thesis by (simp add: algebra_simps)
qed

lemma countTied_pos: "v \<in> set cohort \<Longrightarrow> 0 < countTied cohort v"
  by (auto simp: countTied_def filter_empty_conv)

lemma averageRank_closed:
  assumes "v \<in> set cohort"
  shows "averageRank cohort v
         = of_nat (countBelow cohort v) + (of_nat (countTied cohort v) + 1) / 2"
  unfolding averageRank_def tiedRanks_interval sum_interval_rat
  using countTied_pos [OF assms] by (simp add: field_simps)

lemma techCohort_percentiles:
  "cohortPercentiles techCohort = [Some 0, Some 25, Some 50, Some 75, Some 100]"
  by (simp add: cohortPercentiles_def techCohort_def percentileRank_def averageRank_def
      tiedRanks_def enumerate_eq_zip)

text \<open>
  C2: in a cohort of \<open>n\<close> subjects (at least two, so that the quotient has a value) the
  percentile of a subject's value is \<open>100 * (rank - 1) / (n - 1)\<close>, where the values
  equal to it occupy the ranks following those of the smaller values and the rank is
  their average; the follower counts 100k, 500k, 1M, 2M, 3M have the percentiles
  0, 25, 50, 75, 100, and 1M has 50.
\<close>

theorem percentile_is_average_rank_formula:
  assumes "2 \<le> length cohort" and "v \<in> set cohort"
  shows "tiedRanks cohort v
           = [Suc (countBelow cohort v) ..< Suc (countBelow cohort v) + countTied cohort v]
         \<and> averageRank cohort v
           = of_nat (countBelow cohort v) + (of_nat (countTied cohort v) + 1) / 2
         \<and> percentileRank cohort v
           = Some (100 * (averageRank cohort v - 1) / (of_nat (length cohort) - 1))
         \<and> cohortPercentiles techCohort = [Some 0, Some 25, Some 50, Some 75, Some 100]
         \<and> percentileRank techCohort 1000000 = Some 50"
proof -
  have "percentileRank cohort v
        = Some (100 * (averageRank cohort v - 1) / (of_nat (length cohort) - 1))"
    using assms by (simp add: percentileRank_def)
  moreover have "percentileRank techCohort 1000000 = Some 50"
    by (simp add: techCohort_def percentileRank_def averageRank_def tiedRanks_def
        enumerate_eq_zip)
  ultimately show ?thesis
    using assms(2) by (simp add: tiedRanks_interval averageRank_closed techCohort_percentiles)
qed

theorem percentile_is_average_rank_formula_witness:
  "2 \<le> length [1, 2, 2, 3 :: rat] \<and> 2 \<in> set [1, 2, 2, 3 :: rat]
   \<and> tiedRanks [1, 2, 2, 3] 2 = [2, 3]
   \<and> averageRank [1, 2, 2, 3] 2 = 5 / 2
   \<and> percentileRank [1, 2, 2, 3] 2 = Some 50"
proof -
  have n: "2 \<le> length [1, 2, 2, 3 :: rat]" by simp
  have m: "2 \<in> set [1, 2, 2, 3 :: rat]" by simp
  have b: "countBelow [1, 2, 2, 3] 2 = 1" by (simp add: countBelow_def)
  have t: "countTied [1, 2, 2, 3] 2 = 2" by (simp add: countTied_def)
  have u: "[Suc 1 ..< Suc 1 + 2] = [2, 3]" by (simp add: upt_rec)
  from percentile_is_average_rank_formula [OF n m]
  have "tiedRanks [1, 2, 2, 3] 2 = [2, 3]
        \<and> averageRank [1, 2, 2, 3] 2 = 5 / 2
        \<and> percentileRank [1, 2, 2, 3] 2 = Some (100 * (averageRank [1, 2, 2, 3] 2 - 1) / 3)"
    unfolding b t u by simp
  then show ?thesis by simp
qed

subsection \<open>Winsorized growth\<close>

lemma capDelta_min: "fst (capDelta m med d) = min d (m * med)"
  by (simp add: capDelta_def min_def)

lemma capDelta_flag: "snd (capDelta m med d) \<longleftrightarrow> m * med < d"
  by (simp add: capDelta_def)

text \<open>
  C6: where the window has at least two snapshots and a non-zero earliest count, the
  growth rate is computed from the deltas after each has been capped at the multiple of
  the trailing median delta, and the record is marked as dampened exactly when some
  delta exceeded that bound; a delta above the bound is capped at it and marked, and the
  jump from 300k to 900k with median 20k and multiple 3 is capped at 60k.
\<close>

theorem winsorized_before_growth:
  assumes "trailingWindow cfg history = earliest # second # rest"
      and "earliest \<noteq> 0"
  shows "tr_growth_rate (trendCalculator cfg med history)
           = Some (100 * sum_list (map (\<lambda>d. min d (winsor_multiple cfg * med))
                                    (cycleDeltas (earliest # second # rest))) / earliest)
         \<and> (tr_outlier_dampened (trendCalculator cfg med history)
              \<longleftrightarrow> (\<exists>d \<in> set (cycleDeltas (earliest # second # rest)).
                     winsor_multiple cfg * med < d))
         \<and> (m * med < delta \<longrightarrow> capDelta m med delta = (m * med, True))
         \<and> capDelta 3 20000 (900000 - 300000) = (60000, True)"
proof -
  let ?ds = "cycleDeltas (earliest # second # rest)"
  let ?capped = "map (capDelta (winsor_multiple cfg) med) ?ds"
  have fsts: "map fst ?capped = map (\<lambda>d. min d (winsor_multiple cfg * med)) ?ds"
    by (simp add: capDelta_min comp_def)
  have flag: "list_ex snd ?capped \<longleftrightarrow> (\<exists>d \<in> set ?ds. winsor_multiple cfg * med < d)"
    by (simp add: list_ex_iff capDelta_flag)
  have rec: "trendCalculator cfg med history
             = \<lparr>tr_growth_rate = Some (100 * sum_list (map fst ?capped) / earliest),
                tr_momentum = Some (growthBadge (100 * sum_list (map fst ?capped) / earliest)),
                tr_confidence = Normal,
                tr_outlier_dampened = list_ex snd ?capped\<rparr>"
    using assms by (simp add: trendCalculator_def Let_def del: cycleDeltas.simps)
  have g: "tr_growth_rate (trendCalculator cfg med history)
           = Some (100 * sum_list (map (\<lambda>d. min d (winsor_multiple cfg * med)) ?ds) / earliest)"
    unfolding rec fsts by simp
  have f: "tr_outlier_dampened (trendCalculator cfg med history)
           \<longleftrightarrow> (\<exists>d \<in> set ?ds. winsor_multiple cfg * med < d)"
    unfolding rec using flag by simp
  have c: "m * med < delta \<longrightarrow> capDelta m med delta = (m * med, True)"
    by (simp add: capDelta_def)
  have s: "capDelta 3 20000 (900000 - 300000) = (60000, True)"
    by (simp add: capDelta_def)
  from g f c s show ?thesis by blast
qed

theorem winsorized_before_growth_witness:
  "trailingWindow exampleTrendConfig [300000, 900000] = [300000, 900000]
   \<and> (300000::rat) \<noteq> 0
   \<and> tr_growth_rate (trendCalculator exampleTrendConfig 20000 [300000, 900000]) = Some 20
   \<and> tr_outlier_dampened (trendCalculator exampleTrendConfig 20000 [300000, 900000])"
proof -
  have w: "trailingWindow exampleTrendConfig [300000, 900000] = 300000 # 900000 # []"
    by (simp add: trailingWindow_def exampleTrendConfig_def)
  have nz: "(300000::rat) \<noteq> 0" by simp
  from winsorized_before_growth [OF w nz, of 20000] w
  show ?thesis by (simp add: exampleTrendConfig_def)
qed

end
